theory Spec2Isabelle
  imports Complex_Main
begin

section \<open>The slideshow video service (video.py)\<close>

text \<open>
  A shallow embedding of \<^verbatim>\<open>src/video.py\<close>. Conventions:
  \<^item> Python floats are modelled by the exact rational number they denote (\<open>rat\<close>);
    rounding, infinities and NaN are outside the model.
  \<^item> Python strings are \<open>string\<close>; the texts handled here are ASCII.
  \<^item> An exception is a value of \<open>error\<close>; a function that may raise returns
    \<open>error + 'a\<close> with \<open>Inl\<close> for the exception.
\<close>

subsection \<open>Sequence planning (convert\_to\_video, lines 228 to 231)\<close>

text \<open>Python's \<^verbatim>\<open>xs * k\<close> on a list: \<open>k\<close> copies of \<open>xs\<close>, none when \<open>k \<le> 0\<close>.\<close>

definition list_times :: "'a list \<Rightarrow> int \<Rightarrow> 'a list" where
  "list_times xs k = concat (replicate (nat k) xs)"

text \<open>
  \<^verbatim>\<open>
  num_images = len(image_paths)
  if num_images * 3 < audio_duration:
      repeat_count = int(audio_duration // 3) + 1
      image_paths = image_paths * repeat_count
  \<close>
\<close>

definition repeat_count :: "rat \<Rightarrow> int" where
  "repeat_count audio_duration = \<lfloor>audio_duration / 3\<rfloor> + 1"

definition repeat_images :: "'a list \<Rightarrow> rat \<Rightarrow> 'a list" where
  "repeat_images image_paths audio_duration =
     (let num_images = int (length image_paths)
      in if of_int (num_images * 3) < audio_duration
         then list_times image_paths (repeat_count audio_duration)
         else image_paths)"

text \<open>The planned display time: every entry of the plan is shown for 3 seconds (line 247).\<close>

definition planned_time :: "'a list \<Rightarrow> rat" where
  "planned_time final_paths = of_nat (3 * length final_paths)"

subsection \<open>Python string operations\<close>

text \<open>
  \<^verbatim>\<open>str.isspace\<close> on ASCII: tab, line feed, vertical tab, form feed, carriage return,
  the four separators 0x1C to 0x1F, and the space.
\<close>

definition is_space :: "char \<Rightarrow> bool" where
  "is_space c = ((of_char c :: nat) \<in> set [9, 10, 11, 12, 13, 28, 29, 30, 31, 32])"

text \<open>The ASCII line boundaries of \<^verbatim>\<open>str.splitlines\<close>.\<close>

definition is_linebreak :: "char \<Rightarrow> bool" where
  "is_linebreak c = ((of_char c :: nat) \<in> set [10, 11, 12, 13, 28, 29, 30])"

text \<open>\<^verbatim>\<open>s.strip()\<close> and \<^verbatim>\<open>s.strip(chars)\<close>.\<close>

definition strip :: "string \<Rightarrow> string" where
  "strip s = rev (dropWhile is_space (rev (dropWhile is_space s)))"


text \<open>\<^verbatim>\<open>s.startswith(p)\<close> and \<^verbatim>\<open>sub in s\<close>.\<close>

definition starts_with :: "string \<Rightarrow> string \<Rightarrow> bool" where
  "starts_with s p = (take (length p) s = p)"

fun contains :: "string \<Rightarrow> string \<Rightarrow> bool" where
  "contains [] sub = (sub = [])"
| "contains (c # cs) sub = (starts_with (c # cs) sub \<or> contains cs sub)"

text \<open>
  \<^verbatim>\<open>s.splitlines()\<close>: the text is cut at every line boundary, a carriage return followed
  by a line feed counts once, and a boundary at the very end opens no further line.
  The first argument is the line read so far.
\<close>

fun splitlines_from :: "string \<Rightarrow> string \<Rightarrow> string list" where
  "splitlines_from cur [] = (if cur = [] then [] else [cur])"
| "splitlines_from cur (c # cs) =
     (if c = CHR 0x0D then
        (case cs of
           [] \<Rightarrow> [cur]
         | d # ds \<Rightarrow>
             if d = CHR 0x0A then cur # splitlines_from [] ds
             else cur # splitlines_from [] cs)
      else if is_linebreak c then cur # splitlines_from [] cs
      else splitlines_from (cur @ [c]) cs)"

definition splitlines :: "string \<Rightarrow> string list" where
  "splitlines s = splitlines_from [] s"

text \<open>
  \<^verbatim>\<open>s.split(sep)\<close> for a non-empty separator: occurrences are found from the left and
  do not overlap; the result always has at least one field. (Python raises on an empty
  separator; the source only passes the constants \<^verbatim>\<open>'Duration:'\<close>, \<^verbatim>\<open>','\<close>
  and \<^verbatim>\<open>':'\<close>.)
\<close>

fun split_from :: "string \<Rightarrow> string \<Rightarrow> string \<Rightarrow> string list" where
  "split_from sep cur [] = [cur]"
| "split_from sep cur (c # cs) =
     (if sep \<noteq> [] \<and> starts_with (c # cs) sep
      then cur # split_from sep [] (drop (length sep - 1) cs)
      else split_from sep (cur @ [c]) cs)"

definition split :: "string \<Rightarrow> string \<Rightarrow> string list" where
  "split s sep = split_from sep [] s"



text \<open>\<^verbatim>\<open>sep.join(parts)\<close>.\<close>

fun join :: "string \<Rightarrow> string list \<Rightarrow> string" where
  "join sep [] = []"
| "join sep [x] = x"
| "join sep (x # y # ys) = x @ sep @ join sep (y # ys)"

subsection \<open>Exceptions\<close>

text \<open>
  The exceptions that the modelled code can meet. \<open>OutsideModel\<close> is not a Python
  exception: it marks an input on which the model does not decide what Python does
  (see \<open>py_float\<close>).
\<close>

datatype error =
    IndexError
  | ValueError
  | TypeError
  | RequestException
  | UnidentifiedImageError
  | FileNotFoundError
  | IsADirectoryError
  | OutsideModel

subsection \<open>The built-in float on strings\<close>

definition is_digit :: "char \<Rightarrow> bool" where
  "is_digit c = (48 \<le> (of_char c :: nat) \<and> (of_char c :: nat) \<le> 57)"

definition digits_value :: "string \<Rightarrow> nat" where
  "digits_value ds = foldl (\<lambda>n c. 10 * n + (of_char c - 48)) 0 ds"

text \<open>
  Characters that occur in Python float literals beyond plain decimals: the exponent
  marker, the digit-group underscore and the letters of \<^verbatim>\<open>inf\<close>, \<^verbatim>\<open>infinity\<close>
  and \<^verbatim>\<open>nan\<close> in either case.
\<close>

definition extended_float_char :: "char \<Rightarrow> bool" where
  "extended_float_char c = (c \<in> set ''_eEiInNfFtTyYaA'')"

definition float_char :: "char \<Rightarrow> bool" where
  "float_char c = (is_digit c \<or> c \<in> set ''.+-'' \<or> extended_float_char c)"

text \<open>
  \<^verbatim>\<open>float(s)\<close>: surrounding whitespace is ignored; a plain decimal literal (optional
  sign, digits, optional point and digits, with a digit on at least one side of the point)
  denotes its exact value. A text with a character that no float literal contains raises
  ValueError, and so does a text of digits, signs and points that is no decimal literal.
  What remains are the candidates for exponent notation, underscores, infinities and NaN:
  the model leaves them undecided.
\<close>

definition py_float :: "string \<Rightarrow> error + rat" where
  "py_float s =
     (let t = strip s;
          negative = (t \<noteq> [] \<and> hd t = CHR ''-'');
          u = (if t \<noteq> [] \<and> (hd t = CHR ''-'' \<or> hd t = CHR ''+'') then tl t else t);
          int_part = takeWhile is_digit u;
          r = dropWhile is_digit u;
          after_point = (if r \<noteq> [] \<and> hd r = CHR ''.'' then tl r else r);
          frac_part = takeWhile is_digit after_point;
          rest = dropWhile is_digit after_point;
          magnitude = of_nat (digits_value int_part)
                      + of_nat (digits_value frac_part) / 10 ^ length frac_part
      in if rest = [] \<and> (int_part \<noteq> [] \<or> frac_part \<noteq> [])
         then Inr (if negative then - magnitude else magnitude)
         else if list_all float_char t \<and> list_ex extended_float_char t
         then Inl OutsideModel
         else Inl ValueError)"

subsection \<open>Duration probing (get\_audio\_duration, lines 96 to 118)\<close>

text \<open>
  \<^verbatim>\<open>hours, minutes, seconds = map(float, fields)\<close>: the unpacking draws the converted
  fields one by one, so the first failing conversion among the first four fields raises;
  fewer or more than three fields raise ValueError.
\<close>

fun unpack3 :: "(error + rat) list \<Rightarrow> error + (rat \<times> rat \<times> rat)" where
  "unpack3 [] = Inl ValueError"
| "unpack3 (Inl e # _) = Inl e"
| "unpack3 [Inr h] = Inl ValueError"
| "unpack3 (Inr h # Inl e # _) = Inl e"
| "unpack3 [Inr h, Inr m] = Inl ValueError"
| "unpack3 (Inr h # Inr m # Inl e # _) = Inl e"
| "unpack3 [Inr h, Inr m, Inr s] = Inr (h, m, s)"
| "unpack3 (Inr h # Inr m # Inr s # Inl e # _) = Inl e"
| "unpack3 (Inr h # Inr m # Inr s # Inr _ # _) = Inl ValueError"

text \<open>
  Lines 114 to 117, for a line that contains \<^verbatim>\<open>Duration\<close>:
  \<^verbatim>\<open>
  duration_str = line.split('Duration:')[1].split(',')[0].strip()
  hours, minutes, seconds = map(float, duration_str.split(':'))
  return hours * 3600 + minutes * 60 + seconds
  \<close>
\<close>

definition duration_of_line :: "string \<Rightarrow> error + rat" where
  "duration_of_line line =
     (case split line ''Duration:'' of
        before # part # _ \<Rightarrow>
          (case split part '','' of
             [] \<Rightarrow> Inl IndexError
           | field # _ \<Rightarrow>
               (case unpack3 (map py_float (split (strip field) '':'')) of
                  Inl e \<Rightarrow> Inl e
                | Inr (hours, minutes, seconds) \<Rightarrow>
                    Inr (hours * 3600 + minutes * 60 + seconds)))
      | _ \<Rightarrow> Inl IndexError)"

text \<open>
  The loop of lines 112 to 118: the first line that contains \<^verbatim>\<open>Duration\<close> decides;
  without such a line the result is 0.
\<close>

fun duration_of_lines :: "string list \<Rightarrow> error + rat" where
  "duration_of_lines [] = Inr 0"
| "duration_of_lines (line # lines) =
     (if contains line ''Duration'' then duration_of_line line
      else duration_of_lines lines)"

text \<open>The function on the diagnostic text that the probe printed (\<^verbatim>\<open>result.stderr\<close>).\<close>

definition duration_of_stderr :: "string \<Rightarrow> error + rat" where
  "duration_of_stderr stderr = duration_of_lines (splitlines stderr)"

subsection \<open>Paths and the file system\<close>

text \<open>
  \<^verbatim>\<open>os.path.join(a, b)\<close> for two components on POSIX.
\<close>

definition os_path_join :: "string \<Rightarrow> string \<Rightarrow> string" where
  "os_path_join a b =
     (if starts_with b ''/'' then b
      else if a = [] \<or> last a = CHR ''/'' then a @ b
      else a @ ''/'' @ b)"

text \<open>
  A path names a file system entry through its components: empty components and
  \<^verbatim>\<open>.\<close> are skipped, \<^verbatim>\<open>..\<close> leaves the directory entered last. An absolute path
  starts at the root, written as the component \<^verbatim>\<open>/\<close>. Symbolic links are not modelled.
\<close>

definition resolve_step :: "string list \<Rightarrow> string \<Rightarrow> string list" where
  "resolve_step dirs c =
     (if c = [] \<or> c = ''.'' then dirs
      else if c = ''..'' then
        (if dirs = [] \<or> last dirs = ''..'' then dirs @ [c]
         else if dirs = [''/''] then dirs
         else butlast dirs)
      else dirs @ [c])"

definition resolve :: "string \<Rightarrow> string list" where
  "resolve p = foldl resolve_step (if starts_with p ''/'' then [''/''] else []) (split p ''/'')"

text \<open>
  The content of a file: an image that the imaging library can open, known by its pixel
  width and height, or any other bytes. An entry is a regular file or a directory.
\<close>

datatype payload = Picture nat nat | Bytes string

datatype node = File payload | Dir

text \<open>
  The mutable world: the file system (relative paths start at the working directory of
  the process) and the number of identifiers drawn so far.
\<close>

record world =
  files :: "string list \<Rightarrow> node option"
  uuid_count :: nat

text \<open>
  What the program cannot decide itself: the identifiers that \<^verbatim>\<open>uuid.uuid4()\<close> draws,
  what a URL answers (an exception of the HTTP client, or a status code with a body),
  what the media tool prints when it inspects a file, whether an encoding run exits with
  status zero and, if so, the video it writes, and the working directory.
  Writing a file always succeeds: both folders exist (lines 23 and 24), and faults of the
  storage device are not modelled. The media tool is installed.
\<close>

record env =
  uuid4 :: "nat \<Rightarrow> string"
  requests_get :: "string \<Rightarrow> error + nat \<times> payload"
  ffmpeg_probe :: "node option \<Rightarrow> string"
  ffmpeg_encode :: "(string list \<Rightarrow> node option) \<Rightarrow> string \<Rightarrow> string \<Rightarrow> rat \<Rightarrow> payload option"
  cwd :: string

definition UPLOAD_FOLDER :: string where
  "UPLOAD_FOLDER = ''uploads''"

definition VIDEO_FOLDER :: string where
  "VIDEO_FOLDER = ''videos''"

definition write_file :: "string \<Rightarrow> payload \<Rightarrow> world \<Rightarrow> world" where
  "write_file p c w = w\<lparr>files := (files w)(resolve p := Some (File c))\<rparr>"

definition os_path_exists :: "string \<Rightarrow> world \<Rightarrow> bool" where
  "os_path_exists p w = (files w (resolve p) \<noteq> None)"

definition os_path_isfile :: "string \<Rightarrow> world \<Rightarrow> bool" where
  "os_path_isfile p w = (case files w (resolve p) of Some (File _) \<Rightarrow> True | _ \<Rightarrow> False)"

definition os_remove :: "string \<Rightarrow> world \<Rightarrow> error + world" where
  "os_remove p w =
     (case files w (resolve p) of
        None \<Rightarrow> Inl FileNotFoundError
      | Some Dir \<Rightarrow> Inl IsADirectoryError
      | Some (File _) \<Rightarrow> Inr (w\<lparr>files := (files w)(resolve p := None)\<rparr>))"

subsection \<open>Image normalisation (resize\_image, lines 121 to 142)\<close>

text \<open>
  \<^verbatim>\<open>
  with Image.open(image_path) as img:
      width, height = img.size
      if width % 2 != 0: width += 1
      if height % 2 != 0: height += 1
      resized_img = img.resize((width, height))
      resized_img.save(image_path)
  \<close>
  Opening raises when the path is missing, a directory, or no image.
\<close>

definition resize_image :: "string \<Rightarrow> world \<Rightarrow> error + world" where
  "resize_image image_path w =
     (case files w (resolve image_path) of
        None \<Rightarrow> Inl FileNotFoundError
      | Some Dir \<Rightarrow> Inl IsADirectoryError
      | Some (File (Bytes _)) \<Rightarrow> Inl UnidentifiedImageError
      | Some (File (Picture width height)) \<Rightarrow>
          (let width' = (if width mod 2 \<noteq> 0 then width + 1 else width);
               height' = (if height mod 2 \<noteq> 0 then height + 1 else height)
           in Inr (write_file image_path (Picture width' height') w)))"

text \<open>
  The module defines the name \<^verbatim>\<open>resize_image\<close> a second time at line 350: the view
  function of the route \<^verbatim>\<open>/resize-image\<close>, which has no parameters and which the route
  decorator hands back unchanged. A \<^verbatim>\<open>def\<close> statement binds its name among the globals
  of the module, so from the end of loading on the name denotes the view function.
  Calling it with one positional argument raises TypeError before its body runs.
\<close>

definition resize_image_route :: "string \<Rightarrow> world \<Rightarrow> error + world" where
  "resize_image_route image_path w = Inl TypeError"

text \<open>
  The function that the global name \<^verbatim>\<open>resize_image\<close> denotes whenever a request is
  served: the later definition.
\<close>

definition module_resize_image :: "string \<Rightarrow> world \<Rightarrow> error + world" where
  "module_resize_image = resize_image_route"

subsection \<open>Asset fetching (download\_file, lines 146 to 179)\<close>

text \<open>
  The body of \<^verbatim>\<open>download_file\<close> looks the global name \<^verbatim>\<open>resize_image\<close> up when it
  runs; the model takes the function bound to that name as its first argument \<open>rz\<close>.
  Every exception inside the \<^verbatim>\<open>try\<close> block ends in \<^verbatim>\<open>return None\<close>; a file written
  before the exception stays.
\<close>

definition download_file ::
  "(string \<Rightarrow> world \<Rightarrow> error + world) \<Rightarrow> env \<Rightarrow> string \<Rightarrow> string \<Rightarrow> string \<Rightarrow> world
   \<Rightarrow> string option \<times> world" where
  "download_file rz e url extension folder w =
     (case requests_get e url of
        Inl exn \<Rightarrow> (None, w)
      | Inr (status_code, content) \<Rightarrow>
          if status_code = 200 then
            (let filename = uuid4 e (uuid_count w) @ ''.'' @ extension;
                 file_path = os_path_join folder filename;
                 w1 = write_file file_path content (w\<lparr>uuid_count := Suc (uuid_count w)\<rparr>)
             in if extension \<in> set [''jpg'', ''png'', ''jpeg'', ''webp''] then
                  (case rz file_path w1 of
                     Inl exn \<Rightarrow> (None, w1)
                   | Inr w2 \<Rightarrow> (Some file_path, w2))
                else (Some file_path, w1))
          else (None, w))"

subsection \<open>The convert operation (convert\_to\_video, lines 183 to 287)\<close>

record convert_request =
  audio_url :: "string option"
  image_urls :: "string list option"

text \<open>
  A response is a status code with a body, or an exception that left the view function,
  which the framework answers with status 500.
\<close>

datatype body =
    JsonError string
  | JsonStatus string string
  | Attachment payload

datatype response = Response nat body | Unhandled error


text \<open>The loop of lines 211 to 215: a failed image is left out of the list.\<close>

fun download_images ::
  "(string \<Rightarrow> world \<Rightarrow> error + world) \<Rightarrow> env \<Rightarrow> string list \<Rightarrow> world \<Rightarrow> string list \<times> world" where
  "download_images rz e [] w = ([], w)"
| "download_images rz e (img_url # img_urls) w =
     (case download_file rz e img_url ''jpg'' UPLOAD_FOLDER w of
        (None, w1) \<Rightarrow> download_images rz e img_urls w1
      | (Some img_path, w1) \<Rightarrow>
          (case download_images rz e img_urls w1 of
             (image_paths, w2) \<Rightarrow> (img_path # image_paths, w2)))"

text \<open>\<^verbatim>\<open>get_audio_duration(audio_path)\<close>: probe the file, then read the diagnostic text.\<close>

definition get_audio_duration :: "env \<Rightarrow> string \<Rightarrow> world \<Rightarrow> error + rat" where
  "get_audio_duration e audio_path w =
     duration_of_stderr (ffmpeg_probe e (files w (resolve audio_path)))"

text \<open>
  The sequence plan written at lines 244 to 247. \<^verbatim>\<open>os.path.abspath\<close> puts the working
  directory, an absolute path, in front of a relative path and normalises the result.
\<close>

definition os_path_abspath :: "env \<Rightarrow> string \<Rightarrow> string" where
  "os_path_abspath e p = ''/'' @ join ''/'' (tl (resolve (os_path_join (cwd e) p)))"

definition sequence_text :: "env \<Rightarrow> string list \<Rightarrow> string" where
  "sequence_text e image_paths =
     concat (map (\<lambda>image. ''file '' @ [CHR 0x27] @ os_path_abspath e image @ [CHR 0x27, CHR 0x0A]
                           @ ''duration 3'' @ [CHR 0x0A]) image_paths)"

text \<open>The \<^verbatim>\<open>finally\<close> block, lines 279 to 287. An exception stops it where it is raised.\<close>

fun remove_existing :: "string list \<Rightarrow> world \<Rightarrow> error option \<times> world" where
  "remove_existing [] w = (None, w)"
| "remove_existing (image_path # image_paths) w =
     (if os_path_exists image_path w then
        (case os_remove image_path w of
           Inl exn \<Rightarrow> (Some exn, w)
         | Inr w1 \<Rightarrow> remove_existing image_paths w1)
      else remove_existing image_paths w)"

definition cleanup :: "string \<Rightarrow> string list \<Rightarrow> string \<Rightarrow> world \<Rightarrow> error option \<times> world" where
  "cleanup audio_path image_paths img_sequence_file w =
     (case os_remove audio_path w of
        Inl exn \<Rightarrow> (Some exn, w)
      | Inr w1 \<Rightarrow>
          (case remove_existing image_paths w1 of
             (Some exn, w2) \<Rightarrow> (Some exn, w2)
           | (None, w2) \<Rightarrow>
               if os_path_exists img_sequence_file w2 then
                 (case os_remove img_sequence_file w2 of
                    Inl exn \<Rightarrow> (Some exn, w2)
                  | Inr w3 \<Rightarrow> (None, w3))
               else (None, w2)))"

text \<open>
  Lines 233 to 247: the two fresh names and the sequence plan written to disk. The result
  is the video path, the path of the plan and the world after the write.
\<close>

definition write_sequence_plan :: "env \<Rightarrow> string list \<Rightarrow> world \<Rightarrow> string \<times> string \<times> world" where
  "write_sequence_plan e image_paths w =
     (let video_path = os_path_join VIDEO_FOLDER (uuid4 e (uuid_count w) @ ''_output_video.mp4'');
          img_sequence_file =
            os_path_join UPLOAD_FOLDER (uuid4 e (Suc (uuid_count w)) @ ''_img_sequence.txt'')
      in (video_path, img_sequence_file,
          write_file img_sequence_file (Bytes (sequence_text e image_paths))
            (w\<lparr>uuid_count := Suc (Suc (uuid_count w))\<rparr>)))"

text \<open>
  The encoder run of line 272 on the plan just written: \<open>None\<close> is a non-zero exit
  status, otherwise the video that the encoder stores at the video path.
\<close>

definition run_encoder :: "env \<Rightarrow> string \<Rightarrow> string list \<Rightarrow> rat \<Rightarrow> world \<Rightarrow> payload option" where
  "run_encoder e audio_path image_paths audio_duration w =
     (case write_sequence_plan e image_paths w of
        (video_path, img_sequence_file, w1) \<Rightarrow>
          ffmpeg_encode e (files w1) img_sequence_file audio_path audio_duration)"

text \<open>
  Lines 233 to 287: the \<^verbatim>\<open>try\<close> block with its handler for a non-zero exit status of
  the encoder, and the \<^verbatim>\<open>finally\<close> block, whose exception replaces the response. The
  text of the encoder's exception, which the source appends to the error message, is
  left out.
\<close>

definition encode_and_cleanup ::
  "env \<Rightarrow> string \<Rightarrow> string list \<Rightarrow> rat \<Rightarrow> world \<Rightarrow> response \<times> world" where
  "encode_and_cleanup e audio_path image_paths audio_duration w =
     (case write_sequence_plan e image_paths w of
        (video_path, img_sequence_file, w1) \<Rightarrow>
          (case (case run_encoder e audio_path image_paths audio_duration w of
                   None \<Rightarrow> (Response 500 (JsonError ''Error during video generation: ''), w1)
                 | Some video \<Rightarrow>
                     (Response 200 (Attachment video), write_file video_path video w1)) of
             (resp, w2) \<Rightarrow>
               (case cleanup audio_path image_paths img_sequence_file w2 of
                  (Some exn, w3) \<Rightarrow> (Unhandled exn, w3)
                | (None, w3) \<Rightarrow> (resp, w3))))"

definition convert_to_video ::
  "(string \<Rightarrow> world \<Rightarrow> error + world) \<Rightarrow> env \<Rightarrow> convert_request \<Rightarrow> world \<Rightarrow> response \<times> world" where
  "convert_to_video rz e data w =
     (if audio_url data = None \<or> image_urls data = None
      then (Response 400 (JsonError ''audio_url and image_urls are required.''), w)
      else
        (case download_file rz e (the (audio_url data)) ''mp3'' UPLOAD_FOLDER w of
           (None, w1) \<Rightarrow> (Response 400 (JsonError ''Failed to download audio file.''), w1)
         | (Some audio_path, w1) \<Rightarrow>
             (case download_images rz e (the (image_urls data)) w1 of
                (image_paths, w2) \<Rightarrow>
                  if image_paths = []
                  then (Response 400 (JsonError ''No valid images downloaded.''), w2)
                  else
                    (case get_audio_duration e audio_path w2 of
                       Inl exn \<Rightarrow> (Unhandled exn, w2)
                     | Inr audio_duration \<Rightarrow>
                         if audio_duration = 0
                         then (Response 500 (JsonError ''Could not determine the audio duration.''), w2)
                         else encode_and_cleanup e audio_path
                                (repeat_images image_paths audio_duration) audio_duration w2))))"

text \<open>The operation as the loaded module runs it.\<close>

definition module_convert_to_video :: "env \<Rightarrow> convert_request \<Rightarrow> world \<Rightarrow> response \<times> world" where
  "module_convert_to_video = convert_to_video module_resize_image"

subsection \<open>The delete operation (delete\_video, lines 291 to 346)\<close>



record delete_request =
  filename :: "string option"


subsection \<open>Predicates on the file system\<close>



subsection \<open>A concrete environment\<close>

text \<open>
  An environment and a world on which the operations can be run: three identifiers to
  draw, a handful of URLs, a probe that reports ten seconds, two minutes or no duration
  depending on the audio, and an encoder that fails on anything longer than a minute.
  The uploads and videos folders exist and the videos folder holds one video.
\<close>

fun example_uuid4 :: "nat \<Rightarrow> string" where
  "example_uuid4 0 = ''uuid-a''"
| "example_uuid4 (Suc 0) = ''uuid-b''"
| "example_uuid4 (Suc (Suc 0)) = ''uuid-c''"
| "example_uuid4 (Suc (Suc (Suc n))) = ''uuid-d'' @ replicate n (CHR ''d'')"

definition example_requests_get :: "string \<Rightarrow> error + nat \<times> payload" where
  "example_requests_get url =
     (if url = ''http://host/ten.mp3'' then Inr (200, Bytes ''ten seconds'')
      else if url = ''http://host/long.mp3'' then Inr (200, Bytes ''two minutes'')
      else if url = ''http://host/raw.mp3'' then Inr (200, Bytes ''raw stream'')
      else if url = ''http://host/odd.jpg'' then Inr (200, Picture 3 5)
      else if url = ''http://host/created'' then Inr (201, Bytes ''ten seconds'')
      else if url = ''http://host/empty'' then Inr (204, Bytes [])
      else if url = ''http://host/missing.jpg'' then Inr (404, Bytes ''not found'')
      else Inl RequestException)"

definition example_ffmpeg_probe :: "node option \<Rightarrow> string" where
  "example_ffmpeg_probe n =
     (if n = Some (File (Bytes ''ten seconds''))
      then ''Input #0, mp3, from audio:'' @ [CHR 0x0A]
           @ ''  Duration: 00:00:10.00, start: 0.000000, bitrate: 128 kb/s'' @ [CHR 0x0A]
      else if n = Some (File (Bytes ''two minutes''))
      then ''  Duration: 00:02:00.00, start: 0.000000, bitrate: 128 kb/s'' @ [CHR 0x0A]
      else if n = Some (File (Bytes ''raw stream''))
      then ''Input #0, mp3, from audio:'' @ [CHR 0x0A]
      else ''No such file or directory'' @ [CHR 0x0A])"

definition example_env :: env where
  "example_env =
     \<lparr>uuid4 = example_uuid4,
      requests_get = example_requests_get,
      ffmpeg_probe = example_ffmpeg_probe,
      ffmpeg_encode = (\<lambda>fs plan audio d. if d \<le> 60 then Some (Bytes ''video'') else None),
      cwd = ''/srv/app''\<rparr>"

definition example_files :: "string list \<Rightarrow> node option" where
  "example_files p =
     (if p = [''uploads''] \<or> p = [''videos''] then Some Dir
      else if p = [''videos'', ''a.mp4''] then Some (File (Bytes ''video''))
      else if p = [''secret.txt''] then Some (File (Bytes ''secret''))
      else None)"

definition example_world :: world where
  "example_world = \<lparr>files = example_files, uuid_count = 0\<rparr>"

subsection \<open>Facts about list repetition\<close>

lemma length_concat_replicate: "length (concat (replicate k xs)) = k * length xs"
  by (induction k) simp_all

lemma length_list_times: "length (list_times xs k) = nat k * length xs"
  by (simp add: list_times_def length_concat_replicate)

lemma repeat_count_pos: "0 \<le> d \<Longrightarrow> 0 < repeat_count d"
proof -
  assume "0 \<le> d"
  then have "0 \<le> \<lfloor>d / 3\<rfloor>" by simp
  then show ?thesis by (simp add: repeat_count_def)
qed

lemma repeat_count_covers: "d < of_int (3 * repeat_count d)"
proof -
  have "d / 3 < of_int (\<lfloor>d / 3\<rfloor> + 1)" by linarith
  then have "d < 3 * of_int (\<lfloor>d / 3\<rfloor> + 1)" by simp
  then show ?thesis by (simp add: repeat_count_def)
qed

lemma floor_ten_thirds: "\<lfloor>(10::rat) / 3\<rfloor> = 3"
  by linarith

lemma length_repeat_images:
  "length (repeat_images xs d) =
     (if of_nat (length xs * 3) < d then nat (repeat_count d) * length xs else length xs)"
  by (simp add: repeat_images_def Let_def length_list_times mult.commute)

lemma planned_time_repeated:
  assumes "0 \<le> d"
  shows "planned_time (list_times xs (repeat_count d)) = of_int (3 * repeat_count d) * of_nat (length xs)"
proof -
  have "0 < repeat_count d" using assms by (rule repeat_count_pos)
  then have "(of_nat (nat (repeat_count d)) :: rat) = of_int (repeat_count d)" by simp
  then show ?thesis by (simp add: planned_time_def length_list_times)
qed

section \<open>Properties\<close>

subsection \<open>Sequence planning\<close>

text \<open>
  Claim C3. For a non-empty image list and a duration \<open>d > 0\<close>, the planner returns the
  list repeated \<open>floor (d / 3) + 1\<close> times when three seconds per image fall short of \<open>d\<close>,
  and the list itself otherwise; the length of the result follows.
\<close>

theorem sequence_planner_exact:
  assumes "image_paths \<noteq> []" and "0 < d"
  shows "repeat_images image_paths d =
           (if of_nat (length image_paths * 3) < d
            then concat (replicate (nat (\<lfloor>d / 3\<rfloor> + 1)) image_paths)
            else image_paths)
         \<and> length (repeat_images image_paths d) =
           (if of_nat (length image_paths * 3) < d
            then (nat \<lfloor>d / 3\<rfloor> + 1) * length image_paths
            else length image_paths)"
proof -
  have "0 \<le> \<lfloor>d / 3\<rfloor>" using assms(2) by simp
  then have "nat (\<lfloor>d / 3\<rfloor> + 1) = nat \<lfloor>d / 3\<rfloor> + 1" by linarith
  then show ?thesis
    by (simp add: repeat_images_def Let_def list_times_def repeat_count_def
        length_concat_replicate mult.commute)
qed

text \<open>
  Two images and ten seconds give eight entries; five images and ten seconds stay five.
\<close>

theorem sequence_planner_exact_witness:
  "length (repeat_images [''a'', ''b''] 10) = 8 \<and> repeat_images [''a'', ''b'', ''c'', ''d'', ''e''] 10 = [''a'', ''b'', ''c'', ''d'', ''e'']"
  using sequence_planner_exact [of "[''a'', ''b'']" 10, THEN conjunct2]
    sequence_planner_exact [of "[''a'', ''b'', ''c'', ''d'', ''e'']" 10, THEN conjunct1]
  by (simp add: floor_ten_thirds)

text \<open>
  Claim C4. For a non-empty image list and a duration \<open>d > 0\<close>, three seconds per entry of
  the final list add up to at least \<open>d\<close>.
\<close>

theorem planned_time_covers_audio:
  assumes "image_paths \<noteq> []" and "0 < d"
  shows "d \<le> planned_time (repeat_images image_paths d)"
proof (cases "of_nat (length image_paths * 3) < d")
  case True
  have n: "(1::rat) \<le> of_nat (length image_paths)"
    using assms(1) by (cases image_paths) simp_all
  have pos: "(0::rat) < of_int (3 * repeat_count d)"
    using repeat_count_pos [of d] assms(2) by simp
  have "d < of_int (3 * repeat_count d)" by (rule repeat_count_covers)
  also have "\<dots> = of_int (3 * repeat_count d) * 1" by simp
  also have "\<dots> \<le> of_int (3 * repeat_count d) * of_nat (length image_paths)"
    using n pos by (intro mult_left_mono) simp_all
  also have "\<dots> = planned_time (list_times image_paths (repeat_count d))"
    using assms(2) by (simp add: planned_time_repeated)
  finally show ?thesis using True by (simp add: repeat_images_def Let_def)
next
  case False
  then show ?thesis by (simp add: repeat_images_def Let_def planned_time_def mult.commute)
qed

text \<open>
  Two images and ten seconds.
\<close>

theorem planned_time_covers_audio_witness:
  "(10::rat) \<le> planned_time (repeat_images [''a'', ''b''] 10)"
  using planned_time_covers_audio [of "[''a'', ''b'']" 10] by simp

text \<open>
  Claim C5 as stated bounds the excess of the planned time over the duration by
  \<open>3 * image_count - 1\<close>. Two images and ten seconds are planned as 24 seconds: an excess
  of 14, above the bound 5.
\<close>

theorem excess_bound_counterexample:
  "planned_time (repeat_images [''a'', ''b''] 10) - 10 = 14
   \<and> \<not> planned_time (repeat_images [''a'', ''b''] 10) - 10 \<le> of_nat (3 * length [''a'', ''b''] - 1)"
  by (simp add: repeat_images_def Let_def list_times_def repeat_count_def planned_time_def
      floor_ten_thirds length_concat_replicate)

text \<open>
  Claim C5, amended. For a duration \<open>d > 0\<close>: a list that already covers \<open>d\<close> is kept, and
  the excess is \<open>3 * image_count - d\<close>, below \<open>3 * image_count\<close>; a list that falls short is
  repeated, the planned time is \<open>3 * image_count * (floor (d / 3) + 1)\<close>, and the excess is at
  most \<open>3 * image_count + 3 * (image_count - 1) * floor (d / 3)\<close>.
\<close>

theorem excess_of_planned_time:
  assumes "0 < d"
  shows "(\<not> of_nat (length xs * 3) < d \<longrightarrow>
            repeat_images xs d = xs
            \<and> planned_time (repeat_images xs d) - d = of_nat (3 * length xs) - d
            \<and> planned_time (repeat_images xs d) - d < of_nat (3 * length xs))
         \<and> (of_nat (length xs * 3) < d \<longrightarrow>
            planned_time (repeat_images xs d)
              = of_int (3 * int (length xs) * (\<lfloor>d / 3\<rfloor> + 1))
            \<and> planned_time (repeat_images xs d) - d
              \<le> of_int (3 * int (length xs) + 3 * (int (length xs) - 1) * \<lfloor>d / 3\<rfloor>))"
proof (intro conjI impI)
  assume small: "\<not> of_nat (length xs * 3) < d"
  then show same: "repeat_images xs d = xs"
    by (simp add: repeat_images_def Let_def)
  show "planned_time (repeat_images xs d) - d = of_nat (3 * length xs) - d"
    by (simp add: same planned_time_def)
  show "planned_time (repeat_images xs d) - d < of_nat (3 * length xs)"
    using assms by (simp add: same planned_time_def)
next
  assume large: "of_nat (length xs * 3) < d"
  have "planned_time (repeat_images xs d) = planned_time (list_times xs (repeat_count d))"
    using large by (simp add: repeat_images_def Let_def)
  also have "\<dots> = of_int (3 * repeat_count d) * of_nat (length xs)"
    using assms by (simp add: planned_time_repeated)
  also have "\<dots> = of_int (3 * int (length xs) * (\<lfloor>d / 3\<rfloor> + 1))"
    by (simp add: repeat_count_def)
  finally show total: "planned_time (repeat_images xs d)
      = of_int (3 * int (length xs) * (\<lfloor>d / 3\<rfloor> + 1))" .
  have "of_int (3 * \<lfloor>d / 3\<rfloor>) \<le> d"
  proof -
    have "of_int \<lfloor>d / 3\<rfloor> \<le> d / 3" by (rule of_int_floor_le)
    then show ?thesis by simp
  qed
  then have "planned_time (repeat_images xs d) - d
      \<le> of_int (3 * int (length xs) * (\<lfloor>d / 3\<rfloor> + 1)) - of_int (3 * \<lfloor>d / 3\<rfloor>)"
    by (simp add: total)
  also have "\<dots> = of_int (3 * int (length xs) + 3 * (int (length xs) - 1) * \<lfloor>d / 3\<rfloor>)"
    by (simp add: algebra_simps)
  finally show "planned_time (repeat_images xs d) - d
      \<le> of_int (3 * int (length xs) + 3 * (int (length xs) - 1) * \<lfloor>d / 3\<rfloor>)" .
qed

text \<open>
  Both cases at ten seconds: two images (repeated) and five images (kept).
\<close>

theorem excess_of_planned_time_witness:
  "planned_time (repeat_images [''a'', ''b''] 10) = 24
   \<and> planned_time (repeat_images [''a'', ''b''] 10) - 10 \<le> 15
   \<and> repeat_images [''a'', ''b'', ''c'', ''d'', ''e''] 10 = [''a'', ''b'', ''c'', ''d'', ''e'']
   \<and> planned_time (repeat_images [''a'', ''b'', ''c'', ''d'', ''e''] 10) - 10 < 15"
  using excess_of_planned_time [of 10 "[''a'', ''b'']"]
    excess_of_planned_time [of 10 "[''a'', ''b'', ''c'', ''d'', ''e'']"]
  by (simp add: floor_ten_thirds planned_time_def)


subsection \<open>Duration probing\<close>

text \<open>
  The example of the specification: a well-formed report of one and a half minutes.
\<close>

lemma duration_of_stderr_example:
  "duration_of_stderr (''Input #0, mp3, from audio:'' @ [CHR 0x0A]
      @ ''  Duration: 00:01:30.50, start: 0.000000, bitrate: 128 kb/s'' @ [CHR 0x0A]) = Inr (181 / 2)"
  by code_simp

text \<open>
  Without a line that contains \<^verbatim>\<open>Duration\<close> the result is 0.
\<close>

lemma duration_of_lines_no_marker:
  "\<forall>line \<in> set lines. \<not> contains line ''Duration'' \<Longrightarrow> duration_of_lines lines = Inr 0"
  by (induction lines) simp_all

text \<open>
  Claim C6 on two reports that the media tool prints. When the duration of a stream is
  unknown, the report has a \<^verbatim>\<open>Duration\<close> line without the three numbers, and the
  function raises ValueError where the claim and the docstring promise 0. When a metadata
  line above the duration line mentions \<^verbatim>\<open>Duration\<close>, that line is taken, and the
  function raises IndexError although a well-formed duration line follows.
\<close>

theorem duration_unknown_raises:
  "duration_of_stderr (''Input #0, mp3, from audio:'' @ [CHR 0x0A]
      @ ''  Duration: N/A, start: 0.000000, bitrate: N/A'' @ [CHR 0x0A]) = Inl ValueError
   \<and> duration_of_stderr (''    title           : Duration test'' @ [CHR 0x0A]
      @ ''  Duration: 00:01:30.50, start: 0.000000, bitrate: 128 kb/s'' @ [CHR 0x0A]) = Inl IndexError"
  by code_simp

subsection \<open>Image normalisation\<close>

text \<open>
  The even-dimension fixup on an image file, computed: each side is kept when even and
  one more when odd.
\<close>

lemma resize_image_result:
  assumes "files w (resolve image_path) = Some (File (Picture width height))"
  shows "resize_image image_path w =
           Inr (write_file image_path
                  (Picture (if even width then width else width + 1)
                           (if even height then height else height + 1)) w)"
proof -
  have round_up: "\<And>n::nat. (if n mod 2 \<noteq> 0 then n + 1 else n) = (if even n then n else n + 1)"
    by presburger
  show ?thesis
    unfolding resize_image_def Let_def round_up using assms by simp
qed



subsection \<open>Asset fetching\<close>




subsection \<open>The name resize\_image at request time\<close>

text \<open>
  With the function of line 122 bound to the name, a returned image path holds an image
  with even sides: what claim C2 describes.
\<close>

lemma download_file_first_definition:
  assumes "download_file resize_image e url extension folder w = (Some file_path, w')"
    and "extension \<in> set [''jpg'', ''png'', ''jpeg'', ''webp'']"
  shows "\<exists>width height. files w' (resolve file_path) = Some (File (Picture width height))
           \<and> even width \<and> even height"
proof -
  from assms obtain content w1 where
    w1: "w1 = write_file file_path content (w\<lparr>uuid_count := Suc (uuid_count w)\<rparr>)"
    and rz: "resize_image file_path w1 = Inr w'"
    by (auto simp add: download_file_def Let_def split: sum.splits prod.splits if_splits)
  from rz obtain width height where
    pic: "files w1 (resolve file_path) = Some (File (Picture width height))"
    by (auto simp add: resize_image_def split: option.splits node.splits payload.splits)
  from resize_image_result [OF pic] rz show ?thesis
    by (auto simp add: write_file_def)
qed

text \<open>
  Claim C2 on the loaded module, where the name denotes the view function of line 350:
  the download of a 3 by 5 image with status 200 returns \<^verbatim>\<open>None\<close>, and the file stays
  in the uploads folder with its odd sides.
\<close>

theorem download_file_skips_normalizer:
  "fst (download_file module_resize_image example_env ''http://host/odd.jpg'' ''jpg'' UPLOAD_FOLDER example_world)
     = None
   \<and> files (snd (download_file module_resize_image example_env ''http://host/odd.jpg'' ''jpg''
                    UPLOAD_FOLDER example_world)) [''uploads'', ''uuid-a.jpg'']
     = Some (File (Picture 3 5))"
  by code_simp

subsection \<open>The convert operation\<close>



lemma isfile_uuid_count [simp]: "os_path_isfile q (w\<lparr>uuid_count := n\<rparr>) = os_path_isfile q w"
  by (simp add: os_path_isfile_def)





















text \<open>
  What the \<^verbatim>\<open>finally\<close> block achieves when it completes: the audio file, every
  image file and the sequence plan are gone. This is the path taken after an encoder run,
  successful or not.
\<close>

lemma os_remove_effect:
  "os_remove p w = Inr w' \<Longrightarrow> files w' = (files w)(resolve p := None)"
  by (auto simp add: os_remove_def split: option.splits node.splits)

lemma remove_existing_removes:
  "remove_existing ps w = (None, w') \<Longrightarrow>
     (\<forall>p \<in> set ps. files w' (resolve p) = None) \<and> (\<forall>k. files w k = None \<longrightarrow> files w' k = None)"
proof (induction ps arbitrary: w)
  case Nil
  then show ?case by simp
next
  case (Cons p ps)
  show ?case
  proof (cases "os_path_exists p w")
    case False
    then have rest: "remove_existing ps w = (None, w')" using Cons.prems by simp
    have "files w (resolve p) = None" using False by (simp add: os_path_exists_def)
    then show ?thesis using Cons.IH [OF rest] by simp
  next
    case True
    then obtain w1 where r: "os_remove p w = Inr w1" and rest: "remove_existing ps w1 = (None, w')"
      using Cons.prems by (auto split: sum.splits)
    have "files w1 (resolve p) = None" "\<forall>k. files w k = None \<longrightarrow> files w1 k = None"
      using os_remove_effect [OF r] by simp_all
    then show ?thesis using Cons.IH [OF rest] by simp
  qed
qed

lemma cleanup_removes:
  assumes "cleanup audio_path image_paths img_sequence_file w = (None, w')"
  shows "files w' (resolve audio_path) = None
       \<and> (\<forall>p \<in> set image_paths. files w' (resolve p) = None)
       \<and> files w' (resolve img_sequence_file) = None"
proof -
  from assms obtain w1 w2 where
    a: "os_remove audio_path w = Inr w1" and l: "remove_existing image_paths w1 = (None, w2)"
    and s: "if os_path_exists img_sequence_file w2 then os_remove img_sequence_file w2 = Inr w'
            else w' = w2"
    by (auto simp add: cleanup_def split: sum.splits prod.splits option.splits if_splits)
  have a1: "files w1 (resolve audio_path) = None" using os_remove_effect [OF a] by simp
  have l2: "\<forall>p \<in> set image_paths. files w2 (resolve p) = None"
    and k2: "\<forall>k. files w1 k = None \<longrightarrow> files w2 k = None"
    using remove_existing_removes [OF l] by simp_all
  have a2: "files w2 (resolve audio_path) = None" using a1 k2 by simp
  show ?thesis
  proof (cases "os_path_exists img_sequence_file w2")
    case False
    then show ?thesis using s a2 l2 by (simp add: os_path_exists_def)
  next
    case True
    then have "files w' = (files w2)(resolve img_sequence_file := None)"
      using s os_remove_effect by simp
    then show ?thesis using a2 l2 by simp
  qed
qed

text \<open>
  Claim C1 on two early exits, which return before the \<^verbatim>\<open>try\<close> statement whose
  \<^verbatim>\<open>finally\<close> block removes the files (\<open>cleanup_removes\<close>). An empty image list
  answers 400 and the downloaded audio stays in the uploads folder. With the function of
  line 122 bound to the name \<^verbatim>\<open>resize_image\<close>, an audio file without a duration answers
  500 and the downloaded image stays as well. On the loaded module, an image that was
  written but whose normalisation raised stays, too.
\<close>

theorem convert_leaves_audio_behind:
  "fst (module_convert_to_video example_env
          \<lparr>audio_url = Some ''http://host/ten.mp3'', image_urls = Some []\<rparr> example_world)
     = Response 400 (JsonError ''No valid images downloaded.'')
   \<and> files (snd (module_convert_to_video example_env
          \<lparr>audio_url = Some ''http://host/ten.mp3'', image_urls = Some []\<rparr> example_world))
        (resolve ''uploads/uuid-a.mp3'')
     = Some (File (Bytes ''ten seconds''))
   \<and> fst (convert_to_video resize_image example_env
          \<lparr>audio_url = Some ''http://host/raw.mp3'', image_urls = Some [''http://host/odd.jpg'']\<rparr>
          example_world)
     = Response 500 (JsonError ''Could not determine the audio duration.'')
   \<and> files (snd (convert_to_video resize_image example_env
          \<lparr>audio_url = Some ''http://host/raw.mp3'', image_urls = Some [''http://host/odd.jpg'']\<rparr>
          example_world))
        (resolve ''uploads/uuid-b.jpg'')
     = Some (File (Picture 4 6))
   \<and> fst (module_convert_to_video example_env
          \<lparr>audio_url = Some ''http://host/ten.mp3'', image_urls = Some [''http://host/odd.jpg'']\<rparr>
          example_world)
     = Response 400 (JsonError ''No valid images downloaded.'')
   \<and> files (snd (module_convert_to_video example_env
          \<lparr>audio_url = Some ''http://host/ten.mp3'', image_urls = Some [''http://host/odd.jpg'']\<rparr>
          example_world))
        (resolve ''uploads/uuid-b.jpg'')
     = Some (File (Picture 3 5))"
  by code_simp

subsection \<open>The delete operation\<close>












end
